theory Spec2Isabelle
  imports
    Main
    "HOL-Library.Word"
    "HOL-Library.Multiset"
    "HOL-Library.Char_ord"
    "HOL-Library.List_Lexorder"
begin

section \<open>The core service of the key-value store proxy\<close>

text \<open>
  This theory embeds \<^verbatim>\<open>internal/core/service.go\<close> (the current revision of the
  file, the one that converts errors to gRPC statuses and resolves cluster views) together
  with the engine interface of \<^verbatim>\<open>pkg/keyvaluestore/engine.go\<close>.

  The cluster and the engine are interfaces: the service only calls them. They are
  modelled as records of answer functions; every answer may depend on the calls made so
  far, so a collaborator may be stateful. Each service function takes the history of
  calls made before it started and returns its result together with the calls it made
  itself, in order. Log lines written through logrus are calls of that list too.
\<close>

subsection \<open>Data\<close>

type_synonym key = string
type_synonym bytes = "8 word list"

text \<open>\<^verbatim>\<open>time.Duration\<close> is an \<^verbatim>\<open>int64\<close> count of nanoseconds.\<close>

type_synonym Duration = "64 word"

definition time_Second :: Duration where
  "time_Second = 1000000000"

definition acceptableDurationDiff :: Duration where
  "acceptableDurationDiff = 2 * time_Second"

text \<open>
  Modelled from the spec: the consistency levels, whose declaration is outside the files
  at hand. They are DEFAULT, ONE, MAJORITY and ALL; the service and the command line name
  the same four.
\<close>

datatype ConsistencyLevel =
    ConsistencyLevel_DEFAULT
  | ConsistencyLevel_ONE
  | ConsistencyLevel_MAJORITY
  | ConsistencyLevel_ALL

datatype OperationMode = OperationModeConcurrent | OperationModeSequential

datatype VotingMode = VotingModeVoteOnNotFound | VotingModeSkipVoteOnNotFound

text \<open>
  Modelled from the spec: the error values, of which \<open>ErrNotFound\<close> and
  \<open>ErrConsistency\<close> are declared outside the files at hand. The service compares errors
  with \<^verbatim>\<open>==\<close> against four sentinels; any other error value (a closed backend, a lock
  that was not acquired, a transport failure) is \<open>other_error\<close> with its text.
\<close>

datatype error =
    ErrNotFound
  | ErrConsistency
  | context_Canceled
  | context_DeadlineExceeded
  | other_error string

text \<open>
  A value of type \<^verbatim>\<open>interface{}\<close> as the service meets it: the nil interface, a byte
  slice, a \<^verbatim>\<open>*time.Duration\<close> (which may itself be a nil pointer inside a non-nil
  interface), or a boolean.
\<close>

datatype iface =
    Nil_iface
  | Bytes bytes
  | DurationPtr "Duration option"
  | Bool bool

text \<open>A failed type assertion and a nil pointer dereference both panic.\<close>

datatype panic = interface_conversion | nil_dereference

text \<open>
  Modelled from the spec: the backend, an interface declared outside the files at hand.
  It is an opaque handle identified by an address; the service itself calls only
  \<^verbatim>\<open>Address()\<close> on it. Two handles may report the same address.
\<close>

record Backend =
  handle :: nat
  Address :: string

record RepairArgs =
  Value :: iface
  Err :: "error option"
  Winners :: "Backend list"
  Losers :: "Backend list"

record RollbackArgs =
  Nodes :: "Backend list"

subsection \<open>Type assertions\<close>

text \<open>\<^verbatim>\<open>*(v.(*time.Duration))\<close>: the assertion, then the dereference.\<close>

fun deref_Duration :: "iface \<Rightarrow> panic + Duration" where
  "deref_Duration (DurationPtr (Some d)) = Inr d"
| "deref_Duration (DurationPtr None) = Inl nil_dereference"
| "deref_Duration _ = Inl interface_conversion"

text \<open>\<^verbatim>\<open>v.([]byte)\<close>, \<^verbatim>\<open>v.(bool)\<close> and \<^verbatim>\<open>v.(*time.Duration)\<close>.\<close>

fun assert_bytes :: "iface \<Rightarrow> panic + bytes" where
  "assert_bytes (Bytes b) = Inr b"
| "assert_bytes _ = Inl interface_conversion"

fun assert_bool :: "iface \<Rightarrow> panic + bool" where
  "assert_bool (Bool b) = Inr b"
| "assert_bool _ = Inl interface_conversion"

fun assert_DurationPtr :: "iface \<Rightarrow> panic + Duration option" where
  "assert_DurationPtr (DurationPtr p) = Inr p"
| "assert_DurationPtr _ = Inl interface_conversion"

subsection \<open>Value comparers\<close>

definition byteComparer :: "iface \<Rightarrow> iface \<Rightarrow> panic + bool" where
  "byteComparer x y =
     (case assert_bytes x of
        Inl p \<Rightarrow> Inl p
      | Inr vx \<Rightarrow>
          (case assert_bytes y of
             Inl p \<Rightarrow> Inl p
           | Inr vy \<Rightarrow> Inr (vx = vy)))"

text \<open>
  The subtraction and the negation are \<^verbatim>\<open>int64\<close> operations and wrap around; the two
  comparisons are signed.
\<close>

definition durationComparer :: "iface \<Rightarrow> iface \<Rightarrow> panic + bool" where
  "durationComparer x y =
     (if x = Nil_iface then Inr (y = Nil_iface)
      else if y = Nil_iface then Inr False
      else
        (case deref_Duration x of
           Inl p \<Rightarrow> Inl p
         | Inr dx \<Rightarrow>
             (case deref_Duration y of
                Inl p \<Rightarrow> Inl p
              | Inr dy \<Rightarrow>
                  (let diff = dx - dy;
                       diff = (if sint diff < 0 then - diff else diff)
                   in Inr (sint diff < sint acceptableDurationDiff)))))"

definition booleanComparer :: "iface \<Rightarrow> iface \<Rightarrow> panic + bool" where
  "booleanComparer x y =
     (case assert_bool x of
        Inl p \<Rightarrow> Inl p
      | Inr vx \<Rightarrow>
          (case assert_bool y of
             Inl p \<Rightarrow> Inl p
           | Inr vy \<Rightarrow> Inr (vx = vy)))"

text \<open>The engine receives a comparer as a function value; the calls record which one.\<close>

datatype ValueComparer = cmp_byteComparer | cmp_durationComparer | cmp_booleanComparer

fun apply_comparer :: "ValueComparer \<Rightarrow> iface \<Rightarrow> iface \<Rightarrow> panic + bool" where
  "apply_comparer cmp_byteComparer = byteComparer"
| "apply_comparer cmp_durationComparer = durationComparer"
| "apply_comparer cmp_booleanComparer = booleanComparer"

subsection \<open>Error conversion\<close>

datatype codes =
    codes_NotFound
  | codes_Unavailable
  | codes_Canceled
  | codes_DeadlineExceeded
  | codes_Internal

text \<open>
  \<^verbatim>\<open>status.Error(c, e.Error())\<close>: the code, and the error whose text is the message.
\<close>

datatype grpc_error = status_Error codes error

fun status_code :: "grpc_error \<Rightarrow> codes" where
  "status_code (status_Error c e) = c"

fun convertErrorToGRPC :: "error option \<Rightarrow> grpc_error option" where
  "convertErrorToGRPC None = None"
| "convertErrorToGRPC (Some ErrNotFound) = Some (status_Error codes_NotFound ErrNotFound)"
| "convertErrorToGRPC (Some ErrConsistency) =
     Some (status_Error codes_Unavailable ErrConsistency)"
| "convertErrorToGRPC (Some context_Canceled) =
     Some (status_Error codes_Canceled context_Canceled)"
| "convertErrorToGRPC (Some context_DeadlineExceeded) =
     Some (status_Error codes_DeadlineExceeded context_Canceled)"
| "convertErrorToGRPC (Some (other_error msg)) =
     Some (status_Error codes_Internal (other_error msg))"

subsection \<open>Majority\<close>

text \<open>Go's integer division truncates towards zero.\<close>

definition majority :: "int \<Rightarrow> int" where
  "majority n = sgn n * (\<bar>n\<bar> div 2) + 1"

definition len :: "'a list \<Rightarrow> int" where
  "len xs = int (length xs)"

subsection \<open>Requests, views and responses\<close>

text \<open>
  Modelled from the spec: the request, option, view and response types, declared outside
  the files at hand, with the fields the service reads and writes. Every request carries
  a key and options, some carry data and an expiration; \<^verbatim>\<open>ReadOptions\<close> and
  \<^verbatim>\<open>WriteOptions\<close> both hold a consistency level. A view is a sequence of backends, a
  threshold (acknowledgements for a write, votes for a read) and a voting mode.
\<close>

record Options =
  Consistency :: ConsistencyLevel

type_synonym ReadOptions = Options
type_synonym WriteOptions = Options

record Request =
  Key :: key
  Data :: bytes
  Expiration :: Duration
  Options :: Options

record View =
  Backends :: "Backend list"
  AcknowledgeRequired :: int
  VoteRequired :: int
  VotingMode :: VotingMode

datatype GetResponse = GetResponse bytes
datatype ExpireResponse = ExpireResponse bool
datatype ExistsResponse = ExistsResponse bool
datatype GetTTLResponse = GetTTLResponse "Duration option"

subsection \<open>Operators\<close>

text \<open>
  The operators handed to the engine are closures over the request. Each is recorded by
  the backend call it makes. \<open>op_Set\<close> keeps the value as the closure holds it: where
  the closure asserts \<^verbatim>\<open>[]byte\<close>, it does so when the engine runs it on a node.
  \<open>op_Expire\<close> answers \<^verbatim>\<open>(true, nil)\<close> or \<^verbatim>\<open>(false, err)\<close>; \<open>op_Exists\<close> turns an
  absent key into \<open>ErrNotFound\<close>.
\<close>

datatype ReadOperator =
    op_Get key
  | op_TTL key
  | op_Expire key Duration
  | op_Exists key

datatype WriteOperator =
    op_Set key iface Duration
  | op_Delete key
  | op_Lock key bytes Duration
  | op_Unlock key
  | op_FlushDB

text \<open>
  Rollback closures: the empty one, the one that deletes the key on the nodes it is given
  and the one that unlocks it there. Repair closures: one per read operation, or nil.
\<close>

datatype RollbackOperator =
    rollback_nothing
  | rollback_Delete key
  | rollback_Unlock key

datatype RepairOperator =
    repair_nil
  | repair_Get Request
  | repair_Expire Request
  | repair_Exists Request
  | repair_GetTTL Request

subsection \<open>Collaborators\<close>

text \<open>
  A call on a collaborator, with its arguments in the order of the Go signature, or an
  error line in the log.
\<close>

datatype call =
    Cluster_Read key ConsistencyLevel
  | Cluster_Write key ConsistencyLevel
  | Cluster_FlushDB
  | Cluster_Close
  | Engine_Read "Backend list" int ReadOperator RepairOperator ValueComparer VotingMode
  | Engine_Write "Backend list" int WriteOperator RollbackOperator OperationMode
  | Engine_Close
  | logrus_Error string error

text \<open>
  Each answer is a function of the calls made so far and of the arguments. Where Go returns
  a value and an error, the service looks at the value only when the error is nil, so the
  answer is a sum.
\<close>

record Cluster =
  cluster_Read :: "call list \<Rightarrow> key \<Rightarrow> ConsistencyLevel \<Rightarrow> error + View"
  cluster_Write :: "call list \<Rightarrow> key \<Rightarrow> ConsistencyLevel \<Rightarrow> error + View"
  cluster_FlushDB :: "call list \<Rightarrow> error + View"
  cluster_Close :: "call list \<Rightarrow> error option"

record Engine =
  engine_Read :: "call list \<Rightarrow> Backend list \<Rightarrow> int \<Rightarrow> ReadOperator \<Rightarrow> RepairOperator
                   \<Rightarrow> ValueComparer \<Rightarrow> VotingMode \<Rightarrow> error + iface"
  engine_Write :: "call list \<Rightarrow> Backend list \<Rightarrow> int \<Rightarrow> WriteOperator \<Rightarrow> RollbackOperator
                   \<Rightarrow> OperationMode \<Rightarrow> error option"
  engine_Close :: "call list \<Rightarrow> error option"

subsection \<open>The service and its construction\<close>

record coreService =
  cluster :: Cluster
  engine :: Engine
  defaultWriteConsistency :: ConsistencyLevel
  defaultReadConsistency :: ConsistencyLevel

type_synonym Option = "coreService \<Rightarrow> coreService"

definition WithDefaultReadConsistency :: "ConsistencyLevel \<Rightarrow> Option" where
  "WithDefaultReadConsistency level = (\<lambda>s. s\<lparr>defaultReadConsistency := level\<rparr>)"

definition WithDefaultWriteConsistency :: "ConsistencyLevel \<Rightarrow> Option" where
  "WithDefaultWriteConsistency level = (\<lambda>s. s\<lparr>defaultWriteConsistency := level\<rparr>)"

definition New :: "Cluster \<Rightarrow> Engine \<Rightarrow> Option list \<Rightarrow> coreService" where
  "New c e options =
     fold (\<lambda>option result. option result) options
       \<lparr>cluster = c, engine = e,
        defaultWriteConsistency = ConsistencyLevel_ALL,
        defaultReadConsistency = ConsistencyLevel_MAJORITY\<rparr>"

definition writeConsistency :: "coreService \<Rightarrow> WriteOptions \<Rightarrow> ConsistencyLevel" where
  "writeConsistency s writeOptions =
     (if Consistency writeOptions = ConsistencyLevel_DEFAULT then defaultWriteConsistency s
      else Consistency writeOptions)"

definition readConsistency :: "coreService \<Rightarrow> ReadOptions \<Rightarrow> ConsistencyLevel" where
  "readConsistency s readOptions =
     (if Consistency readOptions = ConsistencyLevel_DEFAULT then defaultReadConsistency s
      else Consistency readOptions)"

subsection \<open>Sorting the nodes\<close>

text \<open>
  \<^verbatim>\<open>sort.Slice\<close> is the Go library's sort by a caller's \<^verbatim>\<open>less\<close>; it promises a sorted
  rearrangement and no stability. It is taken here as insertion of each element into the
  sorted rest, which is one such sort; the theorems below state only what every such sort
  gives.
\<close>

fun place :: "('a \<Rightarrow> 'a \<Rightarrow> bool) \<Rightarrow> 'a \<Rightarrow> 'a list \<Rightarrow> 'a list" where
  "place lt x [] = [x]"
| "place lt x (y # ys) = (if lt y x then y # place lt x ys else x # y # ys)"

definition sort_Slice :: "('a \<Rightarrow> 'a \<Rightarrow> bool) \<Rightarrow> 'a list \<Rightarrow> 'a list" where
  "sort_Slice lt xs = foldr (place lt) xs []"

text \<open>The closure \<^verbatim>\<open>result[i].Address() < result[j].Address()\<close>, on the elements.\<close>

definition less_Address :: "Backend \<Rightarrow> Backend \<Rightarrow> bool" where
  "less_Address a b = (Address a < Address b)"

text \<open>On values: the copy made by \<^verbatim>\<open>append\<close> onto a nil slice, sorted.\<close>

definition sortNodes :: "Backend list \<Rightarrow> Backend list" where
  "sortNodes nodes = (let result = [] @ nodes in sort_Slice less_Address result)"

text \<open>
  With the memory written out. A store is the list of backing arrays, an array's address
  its index; a slice is nil or a window (array, offset, length) of the store.
  \<^verbatim>\<open>append\<close> onto the nil slice returns nil when there is nothing to add, and a
  window over a new array otherwise; \<^verbatim>\<open>sort.Slice\<close> rearranges that array in place.
\<close>

type_synonym store = "Backend list list"

datatype slice = nil_slice | window nat nat nat

fun elems :: "store \<Rightarrow> slice \<Rightarrow> Backend list" where
  "elems st nil_slice = []"
| "elems st (window a off n) = take n (drop off (st ! a))"

fun valid_slice :: "store \<Rightarrow> slice \<Rightarrow> bool" where
  "valid_slice st nil_slice = True"
| "valid_slice st (window a off n) = (a < length st \<and> off + n \<le> length (st ! a))"

definition append_nil :: "store \<Rightarrow> slice \<Rightarrow> store \<times> slice" where
  "append_nil st src =
     (if elems st src = [] then (st, nil_slice)
      else (st @ [elems st src], window (length st) 0 (length (elems st src))))"

fun sort_Slice_store :: "(Backend \<Rightarrow> Backend \<Rightarrow> bool) \<Rightarrow> store \<Rightarrow> slice \<Rightarrow> store" where
  "sort_Slice_store lt st nil_slice = st"
| "sort_Slice_store lt st (window a off n) =
     st[a := take off (st ! a) @ sort_Slice lt (take n (drop off (st ! a)))
              @ drop (off + n) (st ! a)]"

definition sortNodes_store :: "store \<Rightarrow> slice \<Rightarrow> store \<times> slice" where
  "sortNodes_store st nodes =
     (let (st1, result) = append_nil st nodes;
          st2 = sort_Slice_store less_Address st1 result
      in (st2, result))"

subsection \<open>Calling the engine\<close>

text \<open>A call on the engine: its answer after the history \<open>h\<close>, and the call itself.\<close>

definition call_Engine_Read ::
  "coreService \<Rightarrow> call list \<Rightarrow> Backend list \<Rightarrow> int \<Rightarrow> ReadOperator \<Rightarrow> RepairOperator
     \<Rightarrow> ValueComparer \<Rightarrow> VotingMode \<Rightarrow> (error + iface) \<times> call" where
  "call_Engine_Read s h nodes votesRequired operator repair cmp mode =
     (engine_Read (engine s) h nodes votesRequired operator repair cmp mode,
      Engine_Read nodes votesRequired operator repair cmp mode)"

definition call_Engine_Write ::
  "coreService \<Rightarrow> call list \<Rightarrow> Backend list \<Rightarrow> int \<Rightarrow> WriteOperator \<Rightarrow> RollbackOperator
     \<Rightarrow> OperationMode \<Rightarrow> error option \<times> call" where
  "call_Engine_Write s h nodes acknowledgeRequired operator rollback mode =
     (engine_Write (engine s) h nodes acknowledgeRequired operator rollback mode,
      Engine_Write nodes acknowledgeRequired operator rollback mode)"

text \<open>
  The text that every repair and rollback closure repeats: a concurrent write that asks
  for no acknowledgement, whose error is logged and dropped.
  \<^verbatim>\<open>err := s.engine.Write(nodes, 0, operator, rollback, OperationModeConcurrent)\<close>
  \<^verbatim>\<open>if err != nil { logrus.WithError(err).Error(msg) }\<close>
\<close>

definition write_and_log ::
  "coreService \<Rightarrow> Backend list \<Rightarrow> WriteOperator \<Rightarrow> RollbackOperator \<Rightarrow> string
     \<Rightarrow> call list \<Rightarrow> call list" where
  "write_and_log s nodes operator rollback msg h =
     (case call_Engine_Write s h nodes 0 operator rollback OperationModeConcurrent of
        (None, c) \<Rightarrow> [c]
      | (Some err, c) \<Rightarrow> [c, logrus_Error msg err])"

definition msg_read_repair :: string where
  "msg_read_repair = ''unexpected error during read repair''"

definition msg_SET_rollback :: string where
  "msg_SET_rollback = ''unexpected error during SET rollback''"

definition msg_LOCK_rollback :: string where
  "msg_LOCK_rollback = ''unexpected error during LOCK rollback''"

definition msg_closing :: string where
  "msg_closing = ''unexpected error while closing core service''"

subsection \<open>Rollback closures\<close>

fun run_rollback :: "coreService \<Rightarrow> RollbackOperator \<Rightarrow> RollbackArgs \<Rightarrow> call list \<Rightarrow> call list" where
  "run_rollback s rollback_nothing args h = []"
| "run_rollback s (rollback_Delete k) args h =
     write_and_log s (Nodes args) (op_Delete k) rollback_nothing msg_SET_rollback h"
| "run_rollback s (rollback_Unlock k) args h =
     write_and_log s (Nodes args) (op_Unlock k) rollback_nothing msg_LOCK_rollback h"

subsection \<open>Reading and writing through the cluster view\<close>

definition performWrite ::
  "coreService \<Rightarrow> key \<Rightarrow> WriteOptions \<Rightarrow> WriteOperator \<Rightarrow> RollbackOperator \<Rightarrow> OperationMode
     \<Rightarrow> call list \<Rightarrow> error option \<times> call list" where
  "performWrite s k options operator rollback mode h =
     (let consistency = writeConsistency s options;
          c1 = Cluster_Write k consistency
      in case cluster_Write (cluster s) h k consistency of
           Inl err \<Rightarrow> (Some err, [c1])
         | Inr view \<Rightarrow>
             (let view = (if mode = OperationModeSequential
                          then view\<lparr>Backends := sortNodes (Backends view)\<rparr> else view);
                  (err, c2) = call_Engine_Write s (h @ [c1]) (Backends view)
                                (AcknowledgeRequired view) operator rollback mode
              in (err, [c1, c2])))"

definition performFlushDb :: "coreService \<Rightarrow> call list \<Rightarrow> error option \<times> call list" where
  "performFlushDb s h =
     (case cluster_FlushDB (cluster s) h of
        Inl err \<Rightarrow> (Some err, [Cluster_FlushDB])
      | Inr view \<Rightarrow>
          (let (err, c2) = call_Engine_Write s (h @ [Cluster_FlushDB]) (Backends view)
                             (AcknowledgeRequired view) op_FlushDB rollback_nothing
                             OperationModeConcurrent
           in (err, [Cluster_FlushDB, c2])))"

definition performRead ::
  "coreService \<Rightarrow> key \<Rightarrow> ReadOptions \<Rightarrow> ReadOperator \<Rightarrow> RepairOperator \<Rightarrow> ValueComparer
     \<Rightarrow> call list \<Rightarrow> (error + iface) \<times> call list" where
  "performRead s k options readOperator repairOperator comparer h =
     (let consistency = readConsistency s options;
          c1 = Cluster_Read k consistency
      in case cluster_Read (cluster s) h k consistency of
           Inl err \<Rightarrow> (Inl err, [c1])
         | Inr view \<Rightarrow>
             (let (r, c2) = call_Engine_Read s (h @ [c1]) (Backends view) (VoteRequired view)
                              readOperator repairOperator comparer (VotingMode view)
              in (r, [c1, c2])))"

subsection \<open>The write operations\<close>

definition Set :: "coreService \<Rightarrow> Request \<Rightarrow> call list \<Rightarrow> grpc_error option \<times> call list" where
  "Set s request h =
     (let (err, cs) = performWrite s (Key request) (Options request)
                        (op_Set (Key request) (Bytes (Data request)) (Expiration request))
                        (rollback_Delete (Key request)) OperationModeConcurrent h
      in (convertErrorToGRPC err, cs))"

definition Delete :: "coreService \<Rightarrow> Request \<Rightarrow> call list \<Rightarrow> grpc_error option \<times> call list" where
  "Delete s request h =
     (let (err, cs) = performWrite s (Key request) (Options request)
                        (op_Delete (Key request)) rollback_nothing OperationModeConcurrent h
      in (convertErrorToGRPC err, cs))"

definition FlushDB :: "coreService \<Rightarrow> call list \<Rightarrow> grpc_error option \<times> call list" where
  "FlushDB s h = (let (err, cs) = performFlushDb s h in (convertErrorToGRPC err, cs))"

definition Lock :: "coreService \<Rightarrow> Request \<Rightarrow> call list \<Rightarrow> grpc_error option \<times> call list" where
  "Lock s request h =
     (let (err, cs) = performWrite s (Key request) (Options request)
                        (op_Lock (Key request) (Data request) (Expiration request))
                        (rollback_Unlock (Key request)) OperationModeSequential h
      in (convertErrorToGRPC err, cs))"

definition Unlock :: "coreService \<Rightarrow> Request \<Rightarrow> call list \<Rightarrow> grpc_error option \<times> call list" where
  "Unlock s request h =
     (let (err, cs) = performWrite s (Key request) (Options request)
                        (op_Unlock (Key request)) rollback_nothing OperationModeConcurrent h
      in (convertErrorToGRPC err, cs))"

subsection \<open>Repair closures\<close>

text \<open>
  A repair closure returns nothing: its outcome is whether it panicked, and the calls it
  made. All of them start alike: when \<open>ErrNotFound\<close> has won, the key is deleted on the
  losers.
\<close>

definition delete_on_losers :: "coreService \<Rightarrow> Request \<Rightarrow> RepairArgs \<Rightarrow> call list \<Rightarrow> call list" where
  "delete_on_losers s request args h =
     write_and_log s (Losers args) (op_Delete (Key request)) rollback_nothing msg_read_repair h"

text \<open>The nested read of the TTL, on the winners, by a majority of them.\<close>

definition read_ttl_of_winners ::
  "coreService \<Rightarrow> Request \<Rightarrow> RepairArgs \<Rightarrow> call list \<Rightarrow> (error + iface) \<times> call" where
  "read_ttl_of_winners s request args h =
     call_Engine_Read s h (Winners args) (majority (len (Winners args)))
       (op_TTL (Key request)) repair_nil cmp_durationComparer VotingModeSkipVoteOnNotFound"

text \<open>
  The end of the Expire, Exists and GetTTL closures, the same text in each: the value is
  read from the winners and set on the losers with the TTL found before.
\<close>

definition set_value_of_winners ::
  "coreService \<Rightarrow> Request \<Rightarrow> RepairArgs \<Rightarrow> Duration \<Rightarrow> call list \<Rightarrow> call list" where
  "set_value_of_winners s request args ttl h =
     (case call_Engine_Read s h (Winners args) (majority (len (Winners args)))
             (op_Get (Key request)) repair_nil cmp_byteComparer VotingModeSkipVoteOnNotFound of
        (Inl err, c) \<Rightarrow> [c, logrus_Error msg_read_repair err]
      | (Inr rawValue, c) \<Rightarrow>
          c # write_and_log s (Losers args) (op_Set (Key request) rawValue ttl)
                (rollback_Delete (Key request)) msg_read_repair (h @ [c]))"

definition Get_repairOperator ::
  "coreService \<Rightarrow> Request \<Rightarrow> RepairArgs \<Rightarrow> call list \<Rightarrow> panic option \<times> call list" where
  "Get_repairOperator s request args h =
     (if Err args = Some ErrNotFound then (None, delete_on_losers s request args h)
      else
        (case read_ttl_of_winners s request args h of
           (Inl err, c) \<Rightarrow> (None, [c, logrus_Error msg_read_repair err])
         | (Inr ttlValue, c) \<Rightarrow>
             (case (if ttlValue \<noteq> Nil_iface
                    then (case deref_Duration ttlValue of
                            Inl p \<Rightarrow> Inl p
                          | Inr ttl \<Rightarrow> Inr (ttl, ttl \<noteq> 0))
                    else Inr (0, True)) of
                Inl p \<Rightarrow> (Some p, [c])
              | Inr (ttl, shouldRepair) \<Rightarrow>
                  (if shouldRepair
                   then (None, c # write_and_log s (Losers args)
                                     (op_Set (Key request) (Value args) ttl)
                                     (rollback_Delete (Key request)) msg_read_repair (h @ [c]))
                   else (None, [c])))))"

definition Expire_repairOperator ::
  "coreService \<Rightarrow> Request \<Rightarrow> RepairArgs \<Rightarrow> call list \<Rightarrow> panic option \<times> call list" where
  "Expire_repairOperator s request args h =
     (if Err args = Some ErrNotFound then (None, delete_on_losers s request args h)
      else
        (case read_ttl_of_winners s request args h of
           (Inl err, c) \<Rightarrow> (None, [c, logrus_Error msg_read_repair err])
         | (Inr ttlValue, c) \<Rightarrow>
             (case (if Value args \<noteq> Nil_iface then deref_Duration ttlValue else Inr 0) of
                Inl p \<Rightarrow> (Some p, [c])
              | Inr ttl \<Rightarrow>
                  (if Value args \<noteq> Nil_iface \<and> ttl = 0
                   then (None, c # delete_on_losers s request args (h @ [c]))
                   else (None, c # set_value_of_winners s request args ttl (h @ [c]))))))"

definition Exists_repairOperator ::
  "coreService \<Rightarrow> Request \<Rightarrow> RepairArgs \<Rightarrow> call list \<Rightarrow> panic option \<times> call list" where
  "Exists_repairOperator s request args h =
     (if Err args = Some ErrNotFound then (None, delete_on_losers s request args h)
      else
        (case read_ttl_of_winners s request args h of
           (Inl err, c) \<Rightarrow> (None, [c, logrus_Error msg_read_repair err])
         | (Inr ttlValue, c) \<Rightarrow>
             (case (if Value args \<noteq> Nil_iface then deref_Duration ttlValue else Inr 0) of
                Inl p \<Rightarrow> (Some p, [c])
              | Inr ttl \<Rightarrow>
                  (if Value args \<noteq> Nil_iface \<and> ttl = 0
                   then (None, c # delete_on_losers s request args (h @ [c]))
                   else (None, c # set_value_of_winners s request args ttl (h @ [c]))))))"

definition GetTTL_repairOperator ::
  "coreService \<Rightarrow> Request \<Rightarrow> RepairArgs \<Rightarrow> call list \<Rightarrow> panic option \<times> call list" where
  "GetTTL_repairOperator s request args h =
     (if Err args = Some ErrNotFound then (None, delete_on_losers s request args h)
      else
        (case (if Value args \<noteq> Nil_iface then deref_Duration (Value args) else Inr 0) of
           Inl p \<Rightarrow> (Some p, [])
         | Inr ttl \<Rightarrow>
             (if Value args \<noteq> Nil_iface \<and> ttl = 0
              then (None, delete_on_losers s request args h)
              else (None, set_value_of_winners s request args ttl h))))"

subsection \<open>The read operations\<close>

text \<open>
  A read operation returns a response pointer and an error, as in Go, unless a type
  assertion on the engine's answer panics.
\<close>

definition Get ::
  "coreService \<Rightarrow> Request \<Rightarrow> call list
     \<Rightarrow> (panic + GetResponse option \<times> grpc_error option) \<times> call list" where
  "Get s request h =
     (case performRead s (Key request) (Options request) (op_Get (Key request))
             (repair_Get request) cmp_byteComparer h of
        (Inl err, cs) \<Rightarrow> (Inr (None, convertErrorToGRPC (Some err)), cs)
      | (Inr rawResult, cs) \<Rightarrow>
          (case assert_bytes rawResult of
             Inl p \<Rightarrow> (Inl p, cs)
           | Inr data \<Rightarrow> (Inr (Some (GetResponse data), None), cs)))"

definition Expire ::
  "coreService \<Rightarrow> Request \<Rightarrow> call list
     \<Rightarrow> (panic + ExpireResponse option \<times> grpc_error option) \<times> call list" where
  "Expire s request h =
     (case performRead s (Key request) \<lparr>Consistency = Consistency (Options request)\<rparr>
             (op_Expire (Key request) (Expiration request)) (repair_Expire request)
             cmp_booleanComparer h of
        (Inl err, cs) \<Rightarrow>
          (if err = ErrNotFound then (Inr (Some (ExpireResponse False), None), cs)
           else (Inr (None, convertErrorToGRPC (Some err)), cs))
      | (Inr rawResult, cs) \<Rightarrow>
          (case assert_bool rawResult of
             Inl p \<Rightarrow> (Inl p, cs)
           | Inr b \<Rightarrow> (Inr (Some (ExpireResponse b), None), cs)))"

definition Exists ::
  "coreService \<Rightarrow> Request \<Rightarrow> call list
     \<Rightarrow> (panic + ExistsResponse option \<times> grpc_error option) \<times> call list" where
  "Exists s request h =
     (case performRead s (Key request) (Options request) (op_Exists (Key request))
             (repair_Exists request) cmp_booleanComparer h of
        (Inl err, cs) \<Rightarrow>
          (if err = ErrNotFound then (Inr (Some (ExistsResponse False), None), cs)
           else (Inr (None, convertErrorToGRPC (Some err)), cs))
      | (Inr rawResult, cs) \<Rightarrow>
          (case assert_bool rawResult of
             Inl p \<Rightarrow> (Inl p, cs)
           | Inr b \<Rightarrow> (Inr (Some (ExistsResponse b), None), cs)))"

definition GetTTL ::
  "coreService \<Rightarrow> Request \<Rightarrow> call list
     \<Rightarrow> (panic + GetTTLResponse option \<times> grpc_error option) \<times> call list" where
  "GetTTL s request h =
     (case performRead s (Key request) (Options request) (op_TTL (Key request))
             (repair_GetTTL request) cmp_durationComparer h of
        (Inl err, cs) \<Rightarrow> (Inr (None, convertErrorToGRPC (Some err)), cs)
      | (Inr rawResult, cs) \<Rightarrow>
          (if rawResult = Nil_iface then (Inr (Some (GetTTLResponse None), None), cs)
           else
             (case assert_DurationPtr rawResult of
                Inl p \<Rightarrow> (Inl p, cs)
              | Inr ttl \<Rightarrow> (Inr (Some (GetTTLResponse ttl), None), cs))))"

subsection \<open>Closing\<close>

definition Close :: "coreService \<Rightarrow> call list \<Rightarrow> error option \<times> call list" where
  "Close s h =
     (let lastErr = cluster_Close (cluster s) h
      in case engine_Close (engine s) (h @ [Cluster_Close]) of
           Some err \<Rightarrow>
             (Some err,
              [Cluster_Close, Engine_Close] @
                (case lastErr of
                   Some e \<Rightarrow> [logrus_Error msg_closing e]
                 | None \<Rightarrow> []))
         | None \<Rightarrow> (lastErr, [Cluster_Close, Engine_Close]))"

subsection \<open>Notions used in the statements\<close>

definition le_Address :: "Backend \<Rightarrow> Backend \<Rightarrow> bool" where
  "le_Address a b = (Address a \<le> Address b)"

fun is_Sequential_write :: "call \<Rightarrow> bool" where
  "is_Sequential_write (Engine_Write nodes ack operator rollback mode) =
     (mode = OperationModeSequential)"
| "is_Sequential_write _ = False"


subsection \<open>Collaborators with fixed answers\<close>

text \<open>
  A cluster that resolves every key to the same view or error, and an engine whose answer
  to a read depends on the operator only. They serve as concrete inputs.
\<close>

definition fixed_cluster :: "error + View \<Rightarrow> error option \<Rightarrow> Cluster" where
  "fixed_cluster v closing =
     \<lparr>cluster_Read = (\<lambda>h k level. v),
      cluster_Write = (\<lambda>h k level. v),
      cluster_FlushDB = (\<lambda>h. v),
      cluster_Close = (\<lambda>h. closing)\<rparr>"

definition fixed_engine ::
  "(ReadOperator \<Rightarrow> error + iface) \<Rightarrow> error option \<Rightarrow> error option \<Rightarrow> Engine" where
  "fixed_engine reading writing closing =
     \<lparr>engine_Read = (\<lambda>h nodes votes operator repair cmp mode. reading operator),
      engine_Write = (\<lambda>h nodes ack operator rollback mode. writing),
      engine_Close = (\<lambda>h. closing)\<rparr>"

definition node :: "nat \<Rightarrow> string \<Rightarrow> Backend" where
  "node n a = \<lparr>handle = n, Address = a\<rparr>"

definition view_of :: "Backend list \<Rightarrow> View" where
  "view_of nodes =
     \<lparr>Backends = nodes, AcknowledgeRequired = len nodes, VoteRequired = len nodes,
      VotingMode = VotingModeVoteOnNotFound\<rparr>"

definition request_for :: "key \<Rightarrow> ConsistencyLevel \<Rightarrow> Request" where
  "request_for k level =
     \<lparr>Key = k, Data = [], Expiration = 0, Options = \<lparr>Consistency = level\<rparr>\<rparr>"

section \<open>Properties\<close>

subsection \<open>Sorting\<close>

lemma mset_place: "mset (place lt x xs) = add_mset x (mset xs)"
  by (induction xs) simp_all

lemma mset_sort_Slice: "mset (sort_Slice lt xs) = mset xs"
  unfolding sort_Slice_def by (induction xs) (simp_all add: mset_place)

lemma set_place: "set (place lt x xs) = insert x (set xs)"
  using mset_place [of lt x xs] by (metis set_mset_add_mset_insert set_mset_mset)

lemma length_sort_Slice: "length (sort_Slice lt xs) = length xs"
  using mset_sort_Slice [of lt xs] by (metis size_mset)

lemma sort_Slice_Nil: "sort_Slice lt [] = []"
  by (simp add: sort_Slice_def)

lemma sorted_place:
  "sorted_wrt le_Address xs \<Longrightarrow> sorted_wrt le_Address (place less_Address x xs)"
proof (induction xs)
  case Nil
  show ?case by simp
next
  case (Cons y ys)
  show ?case
  proof (cases "less_Address y x")
    case True
    with Cons show ?thesis
      by (auto simp add: set_place le_Address_def less_Address_def)
  next
    case False
    with Cons show ?thesis
      by (auto simp add: le_Address_def less_Address_def)
  qed
qed

lemma sorted_sort_Slice: "sorted_wrt le_Address (sort_Slice less_Address xs)"
  unfolding sort_Slice_def by (induction xs) (simp_all add: sorted_place)

lemma sortNodes_sorted: "sorted_wrt le_Address (sortNodes nodes)"
  by (simp add: sortNodes_def sorted_sort_Slice)

lemma sortNodes_mset: "mset (sortNodes nodes) = mset nodes"
  by (simp add: sortNodes_def mset_sort_Slice)

lemma sortNodes_store_result:
  "sortNodes_store st nodes = (st', r) \<Longrightarrow> elems st' r = sortNodes (elems st nodes)"
  by (auto simp add: sortNodes_store_def append_nil_def sortNodes_def Let_def length_sort_Slice
      sort_Slice_Nil split: if_splits)

lemma sortNodes_store_frame:
  "sortNodes_store st nodes = (st', r) \<Longrightarrow> take (length st) st' = st"
  by (auto simp add: sortNodes_store_def append_nil_def Let_def split: if_splits)

lemma sortNodes_store_fresh:
  "sortNodes_store st nodes = (st', r) \<Longrightarrow>
     r = nil_slice \<or> r = window (length st) 0 (length (elems st nodes))"
  by (auto simp add: sortNodes_store_def append_nil_def Let_def split: if_splits)

lemma sortNodes_store_input:
  "valid_slice st nodes \<Longrightarrow> sortNodes_store st nodes = (st', r) \<Longrightarrow>
     elems st' nodes = elems st nodes"
  by (cases nodes)
     (auto simp add: sortNodes_store_def append_nil_def Let_def nth_append split: if_splits)

subsection \<open>The duration comparer\<close>







subsection \<open>What each operation asks of the cluster and the engine\<close>

lemma performRead_first:
  "take 1 (snd (performRead s k options rop rep cmp h)) =
     [Cluster_Read k (readConsistency s options)]"
  by (simp add: performRead_def Let_def split: sum.splits prod.splits)

lemma performWrite_first:
  "take 1 (snd (performWrite s k options wop rb mode h)) =
     [Cluster_Write k (writeConsistency s options)]"
  by (simp add: performWrite_def Let_def split: sum.splits prod.splits)

lemma performRead_resolved:
  "cluster_Read (cluster s) h k (readConsistency s options) = Inr view \<Longrightarrow>
   performRead s k options rop rep cmp h =
     (engine_Read (engine s) (h @ [Cluster_Read k (readConsistency s options)])
        (Backends view) (VoteRequired view) rop rep cmp (VotingMode view),
      [Cluster_Read k (readConsistency s options),
       Engine_Read (Backends view) (VoteRequired view) rop rep cmp (VotingMode view)])"
  by (simp add: performRead_def call_Engine_Read_def Let_def)

lemma performWrite_resolved:
  "cluster_Write (cluster s) h k (writeConsistency s options) = Inr view \<Longrightarrow>
   performWrite s k options wop rb mode h =
     (let nodes = (if mode = OperationModeSequential then sortNodes (Backends view)
                   else Backends view)
      in (engine_Write (engine s) (h @ [Cluster_Write k (writeConsistency s options)])
            nodes (AcknowledgeRequired view) wop rb mode,
          [Cluster_Write k (writeConsistency s options),
           Engine_Write nodes (AcknowledgeRequired view) wop rb mode]))"
  by (simp add: performWrite_def call_Engine_Write_def Let_def)

lemma performWrite_unresolved:
  "cluster_Write (cluster s) h k (writeConsistency s options) = Inl err \<Longrightarrow>
   performWrite s k options wop rb mode h =
     (Some err, [Cluster_Write k (writeConsistency s options)])"
  by (simp add: performWrite_def Let_def)

lemma Get_calls:
  "snd (Get s request h) =
     snd (performRead s (Key request) (Options request) (op_Get (Key request))
            (repair_Get request) cmp_byteComparer h)"
  by (simp add: Get_def split: sum.splits prod.splits)

lemma Expire_calls:
  "snd (Expire s request h) =
     snd (performRead s (Key request) \<lparr>Consistency = Consistency (Options request)\<rparr>
            (op_Expire (Key request) (Expiration request)) (repair_Expire request)
            cmp_booleanComparer h)"
  by (simp add: Expire_def split: sum.splits prod.splits)

lemma Exists_calls:
  "snd (Exists s request h) =
     snd (performRead s (Key request) (Options request) (op_Exists (Key request))
            (repair_Exists request) cmp_booleanComparer h)"
  by (simp add: Exists_def split: sum.splits prod.splits)

lemma GetTTL_calls:
  "snd (GetTTL s request h) =
     snd (performRead s (Key request) (Options request) (op_TTL (Key request))
            (repair_GetTTL request) cmp_durationComparer h)"
  by (simp add: GetTTL_def split: sum.splits prod.splits)

lemma Set_calls:
  "snd (Set s request h) =
     snd (performWrite s (Key request) (Options request)
            (op_Set (Key request) (Bytes (Data request)) (Expiration request))
            (rollback_Delete (Key request)) OperationModeConcurrent h)"
  by (simp add: Set_def split: prod.splits)

lemma Delete_calls:
  "snd (Delete s request h) =
     snd (performWrite s (Key request) (Options request) (op_Delete (Key request))
            rollback_nothing OperationModeConcurrent h)"
  by (simp add: Delete_def split: prod.splits)

lemma Lock_calls:
  "snd (Lock s request h) =
     snd (performWrite s (Key request) (Options request)
            (op_Lock (Key request) (Data request) (Expiration request))
            (rollback_Unlock (Key request)) OperationModeSequential h)"
  by (simp add: Lock_def split: prod.splits)

lemma Unlock_calls:
  "snd (Unlock s request h) =
     snd (performWrite s (Key request) (Options request) (op_Unlock (Key request))
            rollback_nothing OperationModeConcurrent h)"
  by (simp add: Unlock_def split: prod.splits)

lemma FlushDB_calls: "snd (FlushDB s h) = snd (performFlushDb s h)"
  by (simp add: FlushDB_def split: prod.splits)

lemma writes_pass_through:
  "fst (Set s request h) =
     convertErrorToGRPC (fst (performWrite s (Key request) (Options request)
       (op_Set (Key request) (Bytes (Data request)) (Expiration request))
       (rollback_Delete (Key request)) OperationModeConcurrent h))"
  "fst (Delete s request h) =
     convertErrorToGRPC (fst (performWrite s (Key request) (Options request)
       (op_Delete (Key request)) rollback_nothing OperationModeConcurrent h))"
  "fst (Lock s request h) =
     convertErrorToGRPC (fst (performWrite s (Key request) (Options request)
       (op_Lock (Key request) (Data request) (Expiration request))
       (rollback_Unlock (Key request)) OperationModeSequential h))"
  "fst (Unlock s request h) =
     convertErrorToGRPC (fst (performWrite s (Key request) (Options request)
       (op_Unlock (Key request)) rollback_nothing OperationModeConcurrent h))"
  "fst (FlushDB s h) = convertErrorToGRPC (fst (performFlushDb s h))"
  by (simp_all add: Set_def Delete_def Lock_def Unlock_def FlushDB_def split: prod.splits)

subsection \<open>Error conversion\<close>

lemma reads_convert:
  "fst (performRead s (Key request) (Options request) (op_Get (Key request))
          (repair_Get request) cmp_byteComparer h) = Inl e \<Longrightarrow>
   fst (Get s request h) = Inr (None, convertErrorToGRPC (Some e))"
  "fst (performRead s (Key request) (Options request) (op_TTL (Key request))
          (repair_GetTTL request) cmp_durationComparer h) = Inl e \<Longrightarrow>
   fst (GetTTL s request h) = Inr (None, convertErrorToGRPC (Some e))"
  "fst (performRead s (Key request) (Options request) (op_Exists (Key request))
          (repair_Exists request) cmp_booleanComparer h) = Inl e \<Longrightarrow> e \<noteq> ErrNotFound \<Longrightarrow>
   fst (Exists s request h) = Inr (None, convertErrorToGRPC (Some e))"
  "fst (performRead s (Key request) \<lparr>Consistency = Consistency (Options request)\<rparr>
          (op_Expire (Key request) (Expiration request)) (repair_Expire request)
          cmp_booleanComparer h) = Inl e \<Longrightarrow> e \<noteq> ErrNotFound \<Longrightarrow>
   fst (Expire s request h) = Inr (None, convertErrorToGRPC (Some e))"
  by (auto simp add: Get_def GetTTL_def Exists_def Expire_def split: prod.splits sum.splits)

lemma convert_code:
  "map_option status_code (convertErrorToGRPC (Some e)) =
     Some (case e of
             ErrNotFound \<Rightarrow> codes_NotFound
           | ErrConsistency \<Rightarrow> codes_Unavailable
           | context_Canceled \<Rightarrow> codes_Canceled
           | context_DeadlineExceeded \<Rightarrow> codes_DeadlineExceeded
           | other_error msg \<Rightarrow> codes_Internal)"
  by (cases e) simp_all

text \<open>
  C6. A nil error stays nil. A non-nil error becomes a status whose code is NotFound for
  \<open>ErrNotFound\<close>, Unavailable for \<open>ErrConsistency\<close>, Canceled for a cancelled context,
  DeadlineExceeded for an expired deadline and Internal for every other error. That
  conversion is applied to the error of every write operation, to every error of Get and
  GetTTL, and to every error of Exists and Expire other than \<open>ErrNotFound\<close>.
\<close>

theorem convertErrorToGRPC_codes:
  "convertErrorToGRPC None = None \<and>
   map_option status_code (convertErrorToGRPC (Some e)) =
     Some (case e of
             ErrNotFound \<Rightarrow> codes_NotFound
           | ErrConsistency \<Rightarrow> codes_Unavailable
           | context_Canceled \<Rightarrow> codes_Canceled
           | context_DeadlineExceeded \<Rightarrow> codes_DeadlineExceeded
           | other_error msg \<Rightarrow> codes_Internal) \<and>
   fst (Set s request h) =
     convertErrorToGRPC (fst (performWrite s (Key request) (Options request)
       (op_Set (Key request) (Bytes (Data request)) (Expiration request))
       (rollback_Delete (Key request)) OperationModeConcurrent h)) \<and>
   fst (Delete s request h) =
     convertErrorToGRPC (fst (performWrite s (Key request) (Options request)
       (op_Delete (Key request)) rollback_nothing OperationModeConcurrent h)) \<and>
   fst (Lock s request h) =
     convertErrorToGRPC (fst (performWrite s (Key request) (Options request)
       (op_Lock (Key request) (Data request) (Expiration request))
       (rollback_Unlock (Key request)) OperationModeSequential h)) \<and>
   fst (Unlock s request h) =
     convertErrorToGRPC (fst (performWrite s (Key request) (Options request)
       (op_Unlock (Key request)) rollback_nothing OperationModeConcurrent h)) \<and>
   fst (FlushDB s h) = convertErrorToGRPC (fst (performFlushDb s h)) \<and>
   (fst (performRead s (Key request) (Options request) (op_Get (Key request))
           (repair_Get request) cmp_byteComparer h) = Inl e \<longrightarrow>
      fst (Get s request h) = Inr (None, convertErrorToGRPC (Some e))) \<and>
   (fst (performRead s (Key request) (Options request) (op_TTL (Key request))
           (repair_GetTTL request) cmp_durationComparer h) = Inl e \<longrightarrow>
      fst (GetTTL s request h) = Inr (None, convertErrorToGRPC (Some e))) \<and>
   (fst (performRead s (Key request) (Options request) (op_Exists (Key request))
           (repair_Exists request) cmp_booleanComparer h) = Inl e \<and> e \<noteq> ErrNotFound \<longrightarrow>
      fst (Exists s request h) = Inr (None, convertErrorToGRPC (Some e))) \<and>
   (fst (performRead s (Key request) \<lparr>Consistency = Consistency (Options request)\<rparr>
           (op_Expire (Key request) (Expiration request)) (repair_Expire request)
           cmp_booleanComparer h) = Inl e \<and> e \<noteq> ErrNotFound \<longrightarrow>
      fst (Expire s request h) = Inr (None, convertErrorToGRPC (Some e)))"
  using reads_convert [of s request h e] convert_code [of e]
  by (simp only: writes_pass_through) simp

text \<open>
  The theorem on a Get whose read fails with \<open>ErrConsistency\<close>, an Exists whose read
  meets the deadline and a Set whose write fails with another error.
\<close>

theorem convertErrorToGRPC_codes_witness:
  "fst (Get (New (fixed_cluster (Inr (view_of [node 10 ''a''])) None)
                 (fixed_engine (\<lambda>operator. Inl ErrConsistency) None None) [])
            (request_for ''mykey'' ConsistencyLevel_ALL) [])
     = Inr (None, Some (status_Error codes_Unavailable ErrConsistency)) \<and>
   fst (Exists (New (fixed_cluster (Inr (view_of [node 10 ''a''])) None)
                    (fixed_engine (\<lambda>operator. Inl context_DeadlineExceeded) None None) [])
               (request_for ''mykey'' ConsistencyLevel_ALL) [])
     = Inr (None, Some (status_Error codes_DeadlineExceeded context_Canceled)) \<and>
   fst (Set (New (fixed_cluster (Inr (view_of [node 10 ''a''])) None)
                 (fixed_engine (\<lambda>operator. Inl ErrConsistency)
                    (Some (other_error ''closed'')) None) [])
            (request_for ''mykey'' ConsistencyLevel_ALL) [])
     = Some (status_Error codes_Internal (other_error ''closed''))"
proof -
  let ?c = "fixed_cluster (Inr (view_of [node 10 ''a''])) None"
  let ?r = "request_for ''mykey'' ConsistencyLevel_ALL"
  have rd: "fst (performRead (New ?c (fixed_engine (\<lambda>operator. Inl err) None None) [])
                   (Key ?r) opts rop rep cmp []) = Inl err"
    for err opts rop rep cmp
    by (simp add: performRead_def call_Engine_Read_def New_def fixed_cluster_def
        fixed_engine_def Let_def)
  have wr: "fst (performWrite
                   (New ?c (fixed_engine (\<lambda>operator. Inl ErrConsistency)
                              (Some (other_error ''closed'')) None) [])
                   (Key ?r) opts wop rb mode []) = Some (other_error ''closed'')"
    for opts wop rb mode
    by (simp add: performWrite_def call_Engine_Write_def New_def fixed_cluster_def
        fixed_engine_def Let_def)
  show ?thesis
    using
      convertErrorToGRPC_codes [of ErrConsistency
        "New ?c (fixed_engine (\<lambda>operator. Inl ErrConsistency) None None) []" ?r "[]"]
      convertErrorToGRPC_codes [of context_DeadlineExceeded
        "New ?c (fixed_engine (\<lambda>operator. Inl context_DeadlineExceeded) None None) []" ?r "[]"]
      convertErrorToGRPC_codes [of ErrConsistency
        "New ?c (fixed_engine (\<lambda>operator. Inl ErrConsistency)
                   (Some (other_error ''closed'')) None) []" ?r "[]"]
      rd wr
    by simp
qed

subsection \<open>Consistency substitution\<close>

lemma readConsistency_field:
  "readConsistency s \<lparr>Consistency = Consistency options\<rparr> = readConsistency s options"
  by (simp add: readConsistency_def)

lemma New_defaults:
  "defaultReadConsistency (New c e []) = ConsistencyLevel_MAJORITY \<and>
   defaultWriteConsistency (New c e []) = ConsistencyLevel_ALL"
  by (simp add: New_def)

lemma New_options:
  "defaultReadConsistency (New c e [WithDefaultReadConsistency level]) = level \<and>
   defaultWriteConsistency (New c e [WithDefaultWriteConsistency level]) = level"
  by (simp add: New_def WithDefaultReadConsistency_def WithDefaultWriteConsistency_def)

text \<open>
  C3. A service built without options has the defaults MAJORITY for reads and ALL for
  writes, and an option replaces the one it names. The level an operation resolves is the
  service's default when the request says DEFAULT and the request's own level otherwise.
  Get, Expire, Exists and GetTTL begin by asking the cluster for a read view at the read
  level; Set, Delete, Lock and Unlock begin by asking it for a write view at the write
  level.
\<close>

theorem consistency_substitution:
  "defaultReadConsistency (New c e []) = ConsistencyLevel_MAJORITY \<and>
   defaultWriteConsistency (New c e []) = ConsistencyLevel_ALL \<and>
   defaultReadConsistency (New c e [WithDefaultReadConsistency level]) = level \<and>
   defaultWriteConsistency (New c e [WithDefaultWriteConsistency level]) = level \<and>
   readConsistency s (Options request) =
     (if Consistency (Options request) = ConsistencyLevel_DEFAULT then defaultReadConsistency s
      else Consistency (Options request)) \<and>
   writeConsistency s (Options request) =
     (if Consistency (Options request) = ConsistencyLevel_DEFAULT then defaultWriteConsistency s
      else Consistency (Options request)) \<and>
   take 1 (snd (Get s request h)) =
     [Cluster_Read (Key request) (readConsistency s (Options request))] \<and>
   take 1 (snd (Expire s request h)) =
     [Cluster_Read (Key request) (readConsistency s (Options request))] \<and>
   take 1 (snd (Exists s request h)) =
     [Cluster_Read (Key request) (readConsistency s (Options request))] \<and>
   take 1 (snd (GetTTL s request h)) =
     [Cluster_Read (Key request) (readConsistency s (Options request))] \<and>
   take 1 (snd (Set s request h)) =
     [Cluster_Write (Key request) (writeConsistency s (Options request))] \<and>
   take 1 (snd (Delete s request h)) =
     [Cluster_Write (Key request) (writeConsistency s (Options request))] \<and>
   take 1 (snd (Lock s request h)) =
     [Cluster_Write (Key request) (writeConsistency s (Options request))] \<and>
   take 1 (snd (Unlock s request h)) =
     [Cluster_Write (Key request) (writeConsistency s (Options request))]"
proof -
  have r: "readConsistency s (Options request) =
     (if Consistency (Options request) = ConsistencyLevel_DEFAULT then defaultReadConsistency s
      else Consistency (Options request))"
    by (simp add: readConsistency_def)
  have w: "writeConsistency s (Options request) =
     (if Consistency (Options request) = ConsistencyLevel_DEFAULT then defaultWriteConsistency s
      else Consistency (Options request))"
    by (simp add: writeConsistency_def)
  have reads:
    "take 1 (snd (Get s request h)) =
       [Cluster_Read (Key request) (readConsistency s (Options request))]"
    "take 1 (snd (Expire s request h)) =
       [Cluster_Read (Key request) (readConsistency s (Options request))]"
    "take 1 (snd (Exists s request h)) =
       [Cluster_Read (Key request) (readConsistency s (Options request))]"
    "take 1 (snd (GetTTL s request h)) =
       [Cluster_Read (Key request) (readConsistency s (Options request))]"
    by (simp_all only: Get_calls Expire_calls Exists_calls GetTTL_calls performRead_first
        readConsistency_field)
  have writes:
    "take 1 (snd (Set s request h)) =
       [Cluster_Write (Key request) (writeConsistency s (Options request))]"
    "take 1 (snd (Delete s request h)) =
       [Cluster_Write (Key request) (writeConsistency s (Options request))]"
    "take 1 (snd (Lock s request h)) =
       [Cluster_Write (Key request) (writeConsistency s (Options request))]"
    "take 1 (snd (Unlock s request h)) =
       [Cluster_Write (Key request) (writeConsistency s (Options request))]"
    by (simp_all only: Set_calls Delete_calls Lock_calls Unlock_calls performWrite_first)
  from New_defaults [of c e] New_options [of c e level] r w reads writes
  show ?thesis by (intro conjI) simp_all
qed

text \<open>
  The theorem on a request that says DEFAULT, for a service built with a read default of
  ONE and for one built without options, and on a request that names its level.
\<close>

theorem consistency_substitution_witness:
  "take 1 (snd (Get (New (fixed_cluster (Inl ErrConsistency) None)
                         (fixed_engine (\<lambda>operator. Inl ErrConsistency) None None)
                         [WithDefaultReadConsistency ConsistencyLevel_ONE])
                    (request_for ''mykey'' ConsistencyLevel_DEFAULT) []))
     = [Cluster_Read ''mykey'' ConsistencyLevel_ONE] \<and>
   take 1 (snd (Get (New (fixed_cluster (Inl ErrConsistency) None)
                         (fixed_engine (\<lambda>operator. Inl ErrConsistency) None None) [])
                    (request_for ''mykey'' ConsistencyLevel_DEFAULT) []))
     = [Cluster_Read ''mykey'' ConsistencyLevel_MAJORITY] \<and>
   take 1 (snd (Set (New (fixed_cluster (Inl ErrConsistency) None)
                         (fixed_engine (\<lambda>operator. Inl ErrConsistency) None None) [])
                    (request_for ''mykey'' ConsistencyLevel_DEFAULT) []))
     = [Cluster_Write ''mykey'' ConsistencyLevel_ALL] \<and>
   take 1 (snd (Set (New (fixed_cluster (Inl ErrConsistency) None)
                         (fixed_engine (\<lambda>operator. Inl ErrConsistency) None None)
                         [WithDefaultWriteConsistency ConsistencyLevel_MAJORITY])
                    (request_for ''mykey'' ConsistencyLevel_ONE) []))
     = [Cluster_Write ''mykey'' ConsistencyLevel_ONE]"
  using
    consistency_substitution [of _ _ _
      "New (fixed_cluster (Inl ErrConsistency) None)
           (fixed_engine (\<lambda>operator. Inl ErrConsistency) None None)
           [WithDefaultReadConsistency ConsistencyLevel_ONE]"
      "request_for ''mykey'' ConsistencyLevel_DEFAULT" "[]"]
    consistency_substitution [of _ _ _
      "New (fixed_cluster (Inl ErrConsistency) None)
           (fixed_engine (\<lambda>operator. Inl ErrConsistency) None None) []"
      "request_for ''mykey'' ConsistencyLevel_DEFAULT" "[]"]
    consistency_substitution [of _ _ _
      "New (fixed_cluster (Inl ErrConsistency) None)
           (fixed_engine (\<lambda>operator. Inl ErrConsistency) None None)
           [WithDefaultWriteConsistency ConsistencyLevel_MAJORITY]"
      "request_for ''mykey'' ConsistencyLevel_ONE" "[]"]
  by (simp add: New_def WithDefaultReadConsistency_def WithDefaultWriteConsistency_def
      request_for_def)

subsection \<open>Closing\<close>

text \<open>
  C5, as the code has it. Close asks the cluster to close, then the engine. When both
  fail, it returns the engine's error, the later one, and logs the cluster's. When one of
  them fails, it returns that error and logs nothing; when none fails, it returns nil.
\<close>

theorem Close_returns_last_error:
  "take 2 (snd (Close s h)) = [Cluster_Close, Engine_Close] \<and>
   (cluster_Close (cluster s) h = Some e1 \<and>
    engine_Close (engine s) (h @ [Cluster_Close]) = Some e2 \<longrightarrow>
      Close s h = (Some e2, [Cluster_Close, Engine_Close, logrus_Error msg_closing e1])) \<and>
   (cluster_Close (cluster s) h = Some e1 \<and>
    engine_Close (engine s) (h @ [Cluster_Close]) = None \<longrightarrow>
      Close s h = (Some e1, [Cluster_Close, Engine_Close])) \<and>
   (cluster_Close (cluster s) h = None \<and>
    engine_Close (engine s) (h @ [Cluster_Close]) = Some e2 \<longrightarrow>
      Close s h = (Some e2, [Cluster_Close, Engine_Close])) \<and>
   (cluster_Close (cluster s) h = None \<and>
    engine_Close (engine s) (h @ [Cluster_Close]) = None \<longrightarrow>
      Close s h = (None, [Cluster_Close, Engine_Close]))"
  by (simp add: Close_def Let_def split: option.splits)

text \<open>The theorem with both failing, with the cluster alone failing and with the engine alone.\<close>

theorem Close_returns_last_error_witness:
  "Close (New (fixed_cluster (Inl ErrConsistency) (Some (other_error ''cluster'')))
              (fixed_engine (\<lambda>operator. Inl ErrConsistency) None
                 (Some (other_error ''engine''))) []) []
     = (Some (other_error ''engine''),
        [Cluster_Close, Engine_Close, logrus_Error msg_closing (other_error ''cluster'')]) \<and>
   Close (New (fixed_cluster (Inl ErrConsistency) (Some (other_error ''cluster'')))
              (fixed_engine (\<lambda>operator. Inl ErrConsistency) None None) []) []
     = (Some (other_error ''cluster''), [Cluster_Close, Engine_Close]) \<and>
   Close (New (fixed_cluster (Inl ErrConsistency) None)
              (fixed_engine (\<lambda>operator. Inl ErrConsistency) None
                 (Some (other_error ''engine''))) []) []
     = (Some (other_error ''engine''), [Cluster_Close, Engine_Close])"
  using
    Close_returns_last_error [of
      "New (fixed_cluster (Inl ErrConsistency) (Some (other_error ''cluster'')))
           (fixed_engine (\<lambda>operator. Inl ErrConsistency) None
              (Some (other_error ''engine''))) []"
      "[]" "other_error ''cluster''" "other_error ''engine''"]
    Close_returns_last_error [of
      "New (fixed_cluster (Inl ErrConsistency) (Some (other_error ''cluster'')))
           (fixed_engine (\<lambda>operator. Inl ErrConsistency) None None) []"
      "[]" "other_error ''cluster''" "other_error ''engine''"]
    Close_returns_last_error [of
      "New (fixed_cluster (Inl ErrConsistency) None)
           (fixed_engine (\<lambda>operator. Inl ErrConsistency) None
              (Some (other_error ''engine''))) []"
      "[]" "other_error ''cluster''" "other_error ''engine''"]
  by (simp add: New_def fixed_cluster_def fixed_engine_def)

text \<open>
  C5 as stated fails when both fail: with the cluster failing with "cluster" and the
  engine with "engine", Close returns the engine's error and the log holds the cluster's.
\<close>

theorem Close_both_fail:
  "fst (Close (New (fixed_cluster (Inl ErrConsistency) (Some (other_error ''cluster'')))
                   (fixed_engine (\<lambda>operator. Inl ErrConsistency) None
                      (Some (other_error ''engine''))) []) [])
     = Some (other_error ''engine'') \<and>
   snd (Close (New (fixed_cluster (Inl ErrConsistency) (Some (other_error ''cluster'')))
                   (fixed_engine (\<lambda>operator. Inl ErrConsistency) None
                      (Some (other_error ''engine''))) []) [])
     = [Cluster_Close, Engine_Close, logrus_Error msg_closing (other_error ''cluster'')]"
  by (simp add: Close_def New_def fixed_cluster_def fixed_engine_def)

subsection \<open>GetTTL on a key without expiration\<close>

text \<open>
  C10. When the cluster resolves a view and the engine's read of the TTL succeeds with a
  nil value (the nil interface, or a nil duration pointer), GetTTL returns a response
  whose TTL is nil, and a nil error.
\<close>

theorem GetTTL_no_expiration:
  "cluster_Read (cluster s) h (Key request) (readConsistency s (Options request)) = Inr view \<and>
   engine_Read (engine s) (h @ [Cluster_Read (Key request) (readConsistency s (Options request))])
     (Backends view) (VoteRequired view) (op_TTL (Key request)) (repair_GetTTL request)
     cmp_durationComparer (VotingMode view) = Inr v \<and>
   (v = Nil_iface \<or> v = DurationPtr None) \<longrightarrow>
   fst (GetTTL s request h) = Inr (Some (GetTTLResponse None), None)"
  by (auto simp add: GetTTL_def performRead_resolved)

text \<open>The theorem on a view of two nodes, with an engine that answers nil.\<close>

theorem GetTTL_no_expiration_witness:
  "fst (GetTTL (New (fixed_cluster (Inr (view_of [node 1 ''a'', node 2 ''b''])) None)
                    (fixed_engine (\<lambda>operator. Inr Nil_iface) None None) [])
               (request_for ''mykey'' ConsistencyLevel_ALL) [])
     = Inr (Some (GetTTLResponse None), None)"
  using GetTTL_no_expiration [of
      "New (fixed_cluster (Inr (view_of [node 1 ''a'', node 2 ''b''])) None)
           (fixed_engine (\<lambda>operator. Inr Nil_iface) None None) []"
      "[]" "request_for ''mykey'' ConsistencyLevel_ALL" "view_of [node 1 ''a'', node 2 ''b'']"
      Nil_iface]
  by (simp add: New_def fixed_cluster_def fixed_engine_def)

subsection \<open>Where NotFound reaches the caller\<close>

lemma convert_not_NotFound:
  "err \<noteq> ErrNotFound \<Longrightarrow> convertErrorToGRPC (Some err) = Some g \<Longrightarrow>
   status_code g \<noteq> codes_NotFound"
  by (cases err) auto

lemma convert_NotFound_only:
  "convertErrorToGRPC err = Some g \<Longrightarrow> status_code g = codes_NotFound \<Longrightarrow>
   err = Some ErrNotFound"
  by (cases err; cases "the err") auto

lemma Exists_never_NotFound:
  "fst (Exists s request h) = Inr (resp, Some g) \<Longrightarrow> status_code g \<noteq> codes_NotFound"
  by (auto simp add: Exists_def split: prod.splits sum.splits if_splits
      dest: convert_not_NotFound)

lemma Expire_never_NotFound:
  "fst (Expire s request h) = Inr (resp, Some g) \<Longrightarrow> status_code g \<noteq> codes_NotFound"
  by (auto simp add: Expire_def split: prod.splits sum.splits if_splits
      dest: convert_not_NotFound)

lemma Exists_recasts:
  "fst (performRead s (Key request) (Options request) (op_Exists (Key request))
          (repair_Exists request) cmp_booleanComparer h) = Inl ErrNotFound \<Longrightarrow>
   fst (Exists s request h) = Inr (Some (ExistsResponse False), None)"
  by (auto simp add: Exists_def split: prod.splits sum.splits)

lemma Expire_recasts:
  "fst (performRead s (Key request) \<lparr>Consistency = Consistency (Options request)\<rparr>
          (op_Expire (Key request) (Expiration request)) (repair_Expire request)
          cmp_booleanComparer h) = Inl ErrNotFound \<Longrightarrow>
   fst (Expire s request h) = Inr (Some (ExpireResponse False), None)"
  by (auto simp add: Expire_def split: prod.splits sum.splits)

lemma Get_surfaces:
  "fst (performRead s (Key request) (Options request) (op_Get (Key request))
          (repair_Get request) cmp_byteComparer h) = Inl ErrNotFound \<Longrightarrow>
   fst (Get s request h) = Inr (None, Some (status_Error codes_NotFound ErrNotFound))"
  by (auto simp add: Get_def split: prod.splits sum.splits)

lemma GetTTL_surfaces:
  "fst (performRead s (Key request) (Options request) (op_TTL (Key request))
          (repair_GetTTL request) cmp_durationComparer h) = Inl ErrNotFound \<Longrightarrow>
   fst (GetTTL s request h) = Inr (None, Some (status_Error codes_NotFound ErrNotFound))"
  by (auto simp add: GetTTL_def split: prod.splits sum.splits)

text \<open>
  C7. When the read under Exists or Expire ends with \<open>ErrNotFound\<close>, the operation
  returns a response with Exists false and a nil error, and no error that Exists or
  Expire returns has the code NotFound. When the read under Get or GetTTL ends with
  \<open>ErrNotFound\<close>, the operation returns the status NotFound. Set, Delete, Lock, Unlock
  and FlushDB return the status NotFound only if the cluster's resolution or the engine's
  write itself answered \<open>ErrNotFound\<close>, which a quorum write never does.
\<close>

theorem NotFound_recast_by_Exists_and_Expire:
  "(fst (performRead s (Key request) (Options request) (op_Exists (Key request))
          (repair_Exists request) cmp_booleanComparer h) = Inl ErrNotFound \<longrightarrow>
      fst (Exists s request h) = Inr (Some (ExistsResponse False), None)) \<and>
   (fst (performRead s (Key request) \<lparr>Consistency = Consistency (Options request)\<rparr>
          (op_Expire (Key request) (Expiration request)) (repair_Expire request)
          cmp_booleanComparer h) = Inl ErrNotFound \<longrightarrow>
      fst (Expire s request h) = Inr (Some (ExpireResponse False), None)) \<and>
   (fst (Exists s request h) = Inr (resp1, Some g) \<longrightarrow> status_code g \<noteq> codes_NotFound) \<and>
   (fst (Expire s request h) = Inr (resp2, Some g) \<longrightarrow> status_code g \<noteq> codes_NotFound) \<and>
   (fst (performRead s (Key request) (Options request) (op_Get (Key request))
          (repair_Get request) cmp_byteComparer h) = Inl ErrNotFound \<longrightarrow>
      fst (Get s request h) = Inr (None, Some (status_Error codes_NotFound ErrNotFound))) \<and>
   (fst (performRead s (Key request) (Options request) (op_TTL (Key request))
          (repair_GetTTL request) cmp_durationComparer h) = Inl ErrNotFound \<longrightarrow>
      fst (GetTTL s request h) = Inr (None, Some (status_Error codes_NotFound ErrNotFound))) \<and>
   (fst (Set s request h) = Some g \<and> status_code g = codes_NotFound \<longrightarrow>
      fst (performWrite s (Key request) (Options request)
             (op_Set (Key request) (Bytes (Data request)) (Expiration request))
             (rollback_Delete (Key request)) OperationModeConcurrent h) = Some ErrNotFound) \<and>
   (fst (Delete s request h) = Some g \<and> status_code g = codes_NotFound \<longrightarrow>
      fst (performWrite s (Key request) (Options request) (op_Delete (Key request))
             rollback_nothing OperationModeConcurrent h) = Some ErrNotFound) \<and>
   (fst (Lock s request h) = Some g \<and> status_code g = codes_NotFound \<longrightarrow>
      fst (performWrite s (Key request) (Options request)
             (op_Lock (Key request) (Data request) (Expiration request))
             (rollback_Unlock (Key request)) OperationModeSequential h) = Some ErrNotFound) \<and>
   (fst (Unlock s request h) = Some g \<and> status_code g = codes_NotFound \<longrightarrow>
      fst (performWrite s (Key request) (Options request) (op_Unlock (Key request))
             rollback_nothing OperationModeConcurrent h) = Some ErrNotFound) \<and>
   (fst (FlushDB s h) = Some g \<and> status_code g = codes_NotFound \<longrightarrow>
      fst (performFlushDb s h) = Some ErrNotFound)"
  using Exists_recasts [of s request h] Expire_recasts [of s request h]
    Exists_never_NotFound [of s request h resp1 g] Expire_never_NotFound [of s request h resp2 g]
    Get_surfaces [of s request h] GetTTL_surfaces [of s request h]
    convert_NotFound_only [of _ g]
  by (auto simp only: writes_pass_through)

text \<open>The theorem on a view of one node, with an engine whose reads answer \<open>ErrNotFound\<close>.\<close>

theorem NotFound_recast_by_Exists_and_Expire_witness:
  "fst (Exists (New (fixed_cluster (Inr (view_of [node 1 ''a''])) None)
                    (fixed_engine (\<lambda>operator. Inl ErrNotFound) None None) [])
               (request_for ''mykey'' ConsistencyLevel_ALL) [])
     = Inr (Some (ExistsResponse False), None) \<and>
   fst (Expire (New (fixed_cluster (Inr (view_of [node 1 ''a''])) None)
                    (fixed_engine (\<lambda>operator. Inl ErrNotFound) None None) [])
               (request_for ''mykey'' ConsistencyLevel_ALL) [])
     = Inr (Some (ExpireResponse False), None) \<and>
   fst (Get (New (fixed_cluster (Inr (view_of [node 1 ''a''])) None)
                 (fixed_engine (\<lambda>operator. Inl ErrNotFound) None None) [])
            (request_for ''mykey'' ConsistencyLevel_ALL) [])
     = Inr (None, Some (status_Error codes_NotFound ErrNotFound)) \<and>
   fst (GetTTL (New (fixed_cluster (Inr (view_of [node 1 ''a''])) None)
                    (fixed_engine (\<lambda>operator. Inl ErrNotFound) None None) [])
               (request_for ''mykey'' ConsistencyLevel_ALL) [])
     = Inr (None, Some (status_Error codes_NotFound ErrNotFound))"
proof -
  let ?s = "New (fixed_cluster (Inr (view_of [node 1 ''a''])) None)
                (fixed_engine (\<lambda>operator. Inl ErrNotFound) None None) []"
  let ?r = "request_for ''mykey'' ConsistencyLevel_ALL"
  have rd: "fst (performRead ?s (Key ?r) opts rop rep cmp []) = Inl ErrNotFound"
    for opts rop rep cmp
    by (simp add: performRead_def call_Engine_Read_def New_def fixed_cluster_def
        fixed_engine_def Let_def)
  show ?thesis
    using NotFound_recast_by_Exists_and_Expire [of ?s ?r "[]" None
        "status_Error codes_Internal ErrNotFound" None] rd
    by simp
qed

subsection \<open>Sequential writes\<close>

lemma write_and_log_concurrent:
  "filter is_Sequential_write (write_and_log s nodes wop rb msg h) = []"
  by (simp add: write_and_log_def call_Engine_Write_def split: option.splits)

lemma performWrite_concurrent:
  "filter is_Sequential_write
     (snd (performWrite s k options wop rb OperationModeConcurrent h)) = []"
  by (simp add: performWrite_def call_Engine_Write_def Let_def split: sum.splits)

lemma performFlushDb_concurrent:
  "filter is_Sequential_write (snd (performFlushDb s h)) = []"
  by (simp add: performFlushDb_def call_Engine_Write_def Let_def split: sum.splits)

lemma performRead_concurrent:
  "filter is_Sequential_write (snd (performRead s k options rop rep cmp h)) = []"
  by (simp add: performRead_def call_Engine_Read_def Let_def split: sum.splits)

lemma operations_concurrent:
  "filter is_Sequential_write (snd (Set s request h)) = []"
  "filter is_Sequential_write (snd (Delete s request h)) = []"
  "filter is_Sequential_write (snd (Unlock s request h)) = []"
  "filter is_Sequential_write (snd (FlushDB s h)) = []"
  "filter is_Sequential_write (snd (Get s request h)) = []"
  "filter is_Sequential_write (snd (Expire s request h)) = []"
  "filter is_Sequential_write (snd (Exists s request h)) = []"
  "filter is_Sequential_write (snd (GetTTL s request h)) = []"
  by (simp_all only: Set_calls Delete_calls Unlock_calls FlushDB_calls Get_calls Expire_calls
      Exists_calls GetTTL_calls performWrite_concurrent performFlushDb_concurrent
      performRead_concurrent)

lemma Close_concurrent: "filter is_Sequential_write (snd (Close s h)) = []"
  by (simp add: Close_def Let_def split: option.splits)

lemma run_rollback_concurrent: "filter is_Sequential_write (run_rollback s rb rargs h) = []"
  by (cases rb) (simp_all add: write_and_log_concurrent)

lemma delete_on_losers_concurrent:
  "filter is_Sequential_write (delete_on_losers s request args h) = []"
  by (simp add: delete_on_losers_def write_and_log_concurrent)

lemma set_value_of_winners_concurrent:
  "filter is_Sequential_write (set_value_of_winners s request args ttl h) = []"
  by (simp add: set_value_of_winners_def call_Engine_Read_def write_and_log_concurrent
      split: sum.splits)

lemma read_ttl_concurrent:
  "read_ttl_of_winners s request args h = (r, c) \<Longrightarrow> \<not> is_Sequential_write c"
  by (auto simp add: read_ttl_of_winners_def call_Engine_Read_def)

lemma repairs_concurrent:
  "filter is_Sequential_write (snd (Get_repairOperator s request args h)) = []"
  "filter is_Sequential_write (snd (Expire_repairOperator s request args h)) = []"
  "filter is_Sequential_write (snd (Exists_repairOperator s request args h)) = []"
  "filter is_Sequential_write (snd (GetTTL_repairOperator s request args h)) = []"
  by (auto simp add: Get_repairOperator_def Expire_repairOperator_def Exists_repairOperator_def
      GetTTL_repairOperator_def delete_on_losers_concurrent set_value_of_winners_concurrent
      write_and_log_concurrent
      split: prod.splits sum.splits if_splits dest: read_ttl_concurrent)

lemma Lock_resolved:
  "cluster_Write (cluster s) h (Key request) (writeConsistency s (Options request)) = Inr view \<Longrightarrow>
   snd (Lock s request h) =
     [Cluster_Write (Key request) (writeConsistency s (Options request)),
      Engine_Write (sortNodes (Backends view)) (AcknowledgeRequired view)
        (op_Lock (Key request) (Data request) (Expiration request))
        (rollback_Unlock (Key request)) OperationModeSequential]"
  by (simp add: Lock_calls performWrite_resolved Let_def)

lemma Lock_unresolved:
  "cluster_Write (cluster s) h (Key request) (writeConsistency s (Options request)) = Inl err \<Longrightarrow>
   Lock s request h =
     (convertErrorToGRPC (Some err), [Cluster_Write (Key request) (writeConsistency s (Options request))])"
  by (simp add: Lock_def performWrite_unresolved)

text \<open>
  C4. When the cluster resolves a write view, Lock makes one call on the engine: a write
  in sequential mode whose nodes are the view's backends rearranged in ascending order of
  address. When the cluster refuses, Lock returns the converted error and the engine is
  not called. No other operation, no rollback closure and no repair closure makes a
  sequential write.
\<close>

theorem Lock_alone_writes_in_sequence:
  "(cluster_Write (cluster s) h (Key request) (writeConsistency s (Options request)) = Inr view \<longrightarrow>
      snd (Lock s request h) =
        [Cluster_Write (Key request) (writeConsistency s (Options request)),
         Engine_Write (sortNodes (Backends view)) (AcknowledgeRequired view)
           (op_Lock (Key request) (Data request) (Expiration request))
           (rollback_Unlock (Key request)) OperationModeSequential] \<and>
      sorted_wrt le_Address (sortNodes (Backends view)) \<and>
      mset (sortNodes (Backends view)) = mset (Backends view)) \<and>
   (cluster_Write (cluster s) h (Key request) (writeConsistency s (Options request)) = Inl err \<longrightarrow>
      Lock s request h =
        (convertErrorToGRPC (Some err),
         [Cluster_Write (Key request) (writeConsistency s (Options request))])) \<and>
   filter is_Sequential_write (snd (Set s request h)) = [] \<and>
   filter is_Sequential_write (snd (Delete s request h)) = [] \<and>
   filter is_Sequential_write (snd (Unlock s request h)) = [] \<and>
   filter is_Sequential_write (snd (FlushDB s h)) = [] \<and>
   filter is_Sequential_write (snd (Get s request h)) = [] \<and>
   filter is_Sequential_write (snd (Expire s request h)) = [] \<and>
   filter is_Sequential_write (snd (Exists s request h)) = [] \<and>
   filter is_Sequential_write (snd (GetTTL s request h)) = [] \<and>
   filter is_Sequential_write (snd (Close s h)) = [] \<and>
   filter is_Sequential_write (run_rollback s rb rargs h) = [] \<and>
   filter is_Sequential_write (snd (Get_repairOperator s request args h)) = [] \<and>
   filter is_Sequential_write (snd (Expire_repairOperator s request args h)) = [] \<and>
   filter is_Sequential_write (snd (Exists_repairOperator s request args h)) = [] \<and>
   filter is_Sequential_write (snd (GetTTL_repairOperator s request args h)) = []"
  using Lock_resolved [of s h request view] Lock_unresolved [of s h request err]
    sortNodes_sorted [of "Backends view"] sortNodes_mset [of "Backends view"]
  by (simp only: operations_concurrent Close_concurrent run_rollback_concurrent
      repairs_concurrent) simp

text \<open>The theorem on nodes at addresses c, a, b, and on a cluster that refuses.\<close>

theorem Lock_alone_writes_in_sequence_witness:
  "snd (Lock (New (fixed_cluster (Inr (view_of [node 10 ''c'', node 20 ''a'', node 30 ''b''])) None)
                  (fixed_engine (\<lambda>operator. Inl ErrConsistency) None None) [])
             (request_for ''mykey'' ConsistencyLevel_ALL) [])
     = [Cluster_Write ''mykey'' ConsistencyLevel_ALL,
        Engine_Write [node 20 ''a'', node 30 ''b'', node 10 ''c''] 3 (op_Lock ''mykey'' [] 0)
          (rollback_Unlock ''mykey'') OperationModeSequential] \<and>
   Lock (New (fixed_cluster (Inl ErrConsistency) None)
             (fixed_engine (\<lambda>operator. Inl ErrConsistency) None None) [])
        (request_for ''mykey'' ConsistencyLevel_ALL) []
     = (Some (status_Error codes_Unavailable ErrConsistency),
        [Cluster_Write ''mykey'' ConsistencyLevel_ALL])"
proof -
  have srt: "sortNodes [node 10 ''c'', node 20 ''a'', node 30 ''b''] =
               [node 20 ''a'', node 30 ''b'', node 10 ''c'']"
    by (simp add: sortNodes_def sort_Slice_def less_Address_def node_def)
  show ?thesis
    using
      Lock_alone_writes_in_sequence [of
        "New (fixed_cluster (Inr (view_of [node 10 ''c'', node 20 ''a'', node 30 ''b''])) None)
             (fixed_engine (\<lambda>operator. Inl ErrConsistency) None None) []"
        "[]" "request_for ''mykey'' ConsistencyLevel_ALL"
        "view_of [node 10 ''c'', node 20 ''a'', node 30 ''b'']" ErrConsistency]
      Lock_alone_writes_in_sequence [of
        "New (fixed_cluster (Inl ErrConsistency) None)
             (fixed_engine (\<lambda>operator. Inl ErrConsistency) None None) []"
        "[]" "request_for ''mykey'' ConsistencyLevel_ALL"
        "view_of [node 10 ''c'', node 20 ''a'', node 30 ''b'']" ErrConsistency]
    by (simp add: srt New_def fixed_cluster_def fixed_engine_def request_for_def view_of_def
        writeConsistency_def len_def)
qed

subsection \<open>sortNodes leaves its argument alone\<close>

text \<open>
  C9. The list sortNodes returns is ascending by address and a rearrangement of its
  argument. In memory: the slice it returns holds that list; every array of the store
  before the call is in the store after it, unchanged, so the argument still reads as
  before; and the returned slice is nil (for an empty argument) or a window over an array
  that did not exist before.
\<close>

theorem sortNodes_copies_and_sorts:
  "sorted_wrt le_Address (sortNodes nodes) \<and>
   mset (sortNodes nodes) = mset nodes \<and>
   (valid_slice st sl \<and> sortNodes_store st sl = (st', r) \<longrightarrow>
      elems st' r = sortNodes (elems st sl) \<and>
      take (length st) st' = st \<and>
      elems st' sl = elems st sl \<and>
      (r = nil_slice \<or> r = window (length st) 0 (length (elems st sl))))"
  using sortNodes_sorted [of nodes] sortNodes_mset [of nodes]
    sortNodes_store_result [of st sl st' r] sortNodes_store_frame [of st sl st' r]
    sortNodes_store_input [of st sl st' r] sortNodes_store_fresh [of st sl st' r]
  by blast

text \<open>The theorem on a store of one array with the addresses c, a, b.\<close>

theorem sortNodes_copies_and_sorts_witness:
  "sortNodes [node 10 ''c'', node 20 ''a'', node 30 ''b''] =
     [node 20 ''a'', node 30 ''b'', node 10 ''c''] \<and>
   sortNodes_store [[node 10 ''c'', node 20 ''a'', node 30 ''b'']] (window 0 0 3) =
     ([[node 10 ''c'', node 20 ''a'', node 30 ''b''], [node 20 ''a'', node 30 ''b'', node 10 ''c'']],
      window 1 0 3) \<and>
   elems [[node 10 ''c'', node 20 ''a'', node 30 ''b''], [node 20 ''a'', node 30 ''b'', node 10 ''c'']]
     (window 0 0 3) = [node 10 ''c'', node 20 ''a'', node 30 ''b'']"
proof -
  have srt: "sortNodes [node 10 ''c'', node 20 ''a'', node 30 ''b''] =
               [node 20 ''a'', node 30 ''b'', node 10 ''c'']"
    by (simp add: sortNodes_def sort_Slice_def less_Address_def node_def)
  have run: "sortNodes_store [[node 10 ''c'', node 20 ''a'', node 30 ''b'']] (window 0 0 3) =
     ([[node 10 ''c'', node 20 ''a'', node 30 ''b''], [node 20 ''a'', node 30 ''b'', node 10 ''c'']],
      window 1 0 3)"
    by (simp add: sortNodes_store_def append_nil_def sort_Slice_def less_Address_def node_def)
  show ?thesis
    using sortNodes_copies_and_sorts [of "[node 10 ''c'', node 20 ''a'', node 30 ''b'']"
        "[[node 10 ''c'', node 20 ''a'', node 30 ''b'']]" "window 0 0 3"
        "[[node 10 ''c'', node 20 ''a'', node 30 ''b''], [node 20 ''a'', node 30 ''b'', node 10 ''c'']]"
        "window 1 0 3"] srt run
    by simp
qed

subsection \<open>Read repair after Get\<close>






subsection \<open>Read repair after Expire and Exists\<close>

text \<open>
  C2 asks that a nil TTL be taken as "no repair". The code tests \<^verbatim>\<open>args.Value != nil\<close>
  and then reads \<^verbatim>\<open>*(ttlValue.(*time.Duration))\<close>: with the winning value
  \<^verbatim>\<open>true\<close> and a TTL read that answers the nil interface, both closures panic in the
  type assertion; with a TTL read that answers a nil pointer, both panic in the
  dereference. Either way the closure stops right after the TTL read.
\<close>

theorem Expire_Exists_repair_panics_on_nil_TTL:
  "Exists_repairOperator
     (New (fixed_cluster (Inl ErrConsistency) None)
          (fixed_engine (\<lambda>operator. Inr Nil_iface) None None) [])
     (request_for ''mykey'' ConsistencyLevel_ALL)
     \<lparr>Value = Bool True, Err = None, Winners = [node 10 ''a'', node 20 ''b''],
      Losers = [node 30 ''c'']\<rparr> []
     = (Some interface_conversion,
        [Engine_Read [node 10 ''a'', node 20 ''b''] 2 (op_TTL ''mykey'') repair_nil
           cmp_durationComparer VotingModeSkipVoteOnNotFound]) \<and>
   Expire_repairOperator
     (New (fixed_cluster (Inl ErrConsistency) None)
          (fixed_engine (\<lambda>operator. Inr Nil_iface) None None) [])
     (request_for ''mykey'' ConsistencyLevel_ALL)
     \<lparr>Value = Bool True, Err = None, Winners = [node 10 ''a'', node 20 ''b''],
      Losers = [node 30 ''c'']\<rparr> []
     = (Some interface_conversion,
        [Engine_Read [node 10 ''a'', node 20 ''b''] 2 (op_TTL ''mykey'') repair_nil
           cmp_durationComparer VotingModeSkipVoteOnNotFound]) \<and>
   Exists_repairOperator
     (New (fixed_cluster (Inl ErrConsistency) None)
          (fixed_engine (\<lambda>operator. Inr (DurationPtr None)) None None) [])
     (request_for ''mykey'' ConsistencyLevel_ALL)
     \<lparr>Value = Bool True, Err = None, Winners = [node 10 ''a'', node 20 ''b''],
      Losers = [node 30 ''c'']\<rparr> []
     = (Some nil_dereference,
        [Engine_Read [node 10 ''a'', node 20 ''b''] 2 (op_TTL ''mykey'') repair_nil
           cmp_durationComparer VotingModeSkipVoteOnNotFound]) \<and>
   Expire_repairOperator
     (New (fixed_cluster (Inl ErrConsistency) None)
          (fixed_engine (\<lambda>operator. Inr (DurationPtr None)) None None) [])
     (request_for ''mykey'' ConsistencyLevel_ALL)
     \<lparr>Value = Bool True, Err = None, Winners = [node 10 ''a'', node 20 ''b''],
      Losers = [node 30 ''c'']\<rparr> []
     = (Some nil_dereference,
        [Engine_Read [node 10 ''a'', node 20 ''b''] 2 (op_TTL ''mykey'') repair_nil
           cmp_durationComparer VotingModeSkipVoteOnNotFound])"
  by (simp add: Exists_repairOperator_def Expire_repairOperator_def read_ttl_of_winners_def
      call_Engine_Read_def New_def fixed_engine_def request_for_def majority_def len_def)

end
